theory Spec2Isabelle
  imports Main
begin

text \<open>
  A model of \<open>include/boost/sweater/threading/hardware_concurrency.cpp\<close>: the reader of
  the container CPU quota (\<open>read_int\<close>, \<open>get_docker_limit\<close>, \<open>docker_quota\<close>), the two
  queries \<open>get_hardware_concurrency_max\<close> and \<open>hardware_concurrency_current\<close> in each
  of their preprocessor variants, and the flag \<open>slow_thread_signals\<close>. Everything the
  code takes from outside is an argument: the build's macros and types, the files, the
  bytes already on the stack, and what the OS facilities return.
\<close>

section \<open>C++ integer types\<close>

text \<open>
  Values of the C++ integer types are mathematical integers kept inside the range of
  their type. A type is its width and its signedness; \<open>static_cast\<close> to it reduces the
  value modulo \<open>2 ^ bits\<close>, as the conversion between integer types does.
\<close>

record int_type =
  bits :: nat
  is_signed :: bool

definition static_cast :: "int_type \<Rightarrow> int \<Rightarrow> int" where
  "static_cast T x =
     (if is_signed T then signed_take_bit (bits T - 1) x else take_bit (bits T) x)"

definition representable :: "int_type \<Rightarrow> int \<Rightarrow> bool" where
  "representable T x =
     (if is_signed T then - (2 ^ (bits T - 1)) \<le> x \<and> x < 2 ^ (bits T - 1)
      else 0 \<le> x \<and> x < 2 ^ bits T)"

text \<open>\<open>int\<close> is 32 bits wide on every target of the library.\<close>

definition int_t :: int_type where
  "int_t = \<lparr>bits = 32, is_signed = True\<rparr>"

definition INT_MAX :: int where
  "INT_MAX = 2147483647"

definition INT_MIN :: int where
  "INT_MIN = - 2147483648"

text \<open>
  \<open>long\<close> is as wide as the target's ABI makes it (64 bits on LP64 Linux, 32 bits on
  32-bit targets), so its width is a parameter.
\<close>

definition LONG_MAX :: "nat \<Rightarrow> int" where
  "LONG_MAX long_bits = 2 ^ (long_bits - 1) - 1"

definition LONG_MIN :: "nat \<Rightarrow> int" where
  "LONG_MIN long_bits = - (2 ^ (long_bits - 1))"

text \<open>Division of \<open>int\<close>s truncates towards zero.\<close>

definition c_div :: "int \<Rightarrow> int \<Rightarrow> int" where
  "c_div a b = sgn a * sgn b * (\<bar>a\<bar> div \<bar>b\<bar>)"


section \<open>Build configuration\<close>

text \<open>
  The preprocessor selects one implementation per build. The macros come from the
  compiler and from \<open>hardware_concurrency.hpp\<close>; that header also declares
  \<open>hardware_concurrency_t\<close>, the integer type of the two public queries. Neither is
  fixed by \<open>hardware_concurrency.cpp\<close>, so all of them are parameters.

  \<open>verify_checks\<close> says whether \<open>BOOST_VERIFY\<close> checks its condition (it does unless
  \<open>NDEBUG\<close> or \<open>BOOST_DISABLE_ASSERTS\<close> is defined; otherwise it only evaluates the
  expression).
\<close>

record build =
  BOOST_SWEATER_MAX_HARDWARE_CONCURRENCY :: nat
  BOOST_SWEATER_DOCKER_LIMITS :: bool
  EMSCRIPTEN_PTHREADS :: bool
  LINUX :: bool
  ANDROID :: bool
  hardware_concurrency_t :: int_type
  long_bits :: nat
  verify_checks :: bool


section \<open>OS Probe\<close>

text \<open>
  What the operating system's facilities return when they are called. Two snapshots
  of this record stand for two moments of one process.
\<close>

record os_probe =
  get_nprocs_conf :: int
  get_nprocs :: int
  emscripten_has_threading_support :: int
  emscripten_num_logical_cores :: int
  std_thread_hardware_concurrency :: nat
  android_get_device_api_level :: int


section \<open>Files and buffers\<close>

text \<open>
  An opened file: what \<open>read\<close> will deliver from its start (\<open>None\<close> when \<open>read\<close>
  fails with -1) and whether \<open>close\<close> returns 0. A file system maps a path to the file
  \<open>open\<close> gives, \<open>None\<close> when \<open>open\<close> returns -1.
\<close>

record opened_file =
  read_result :: "string option"
  close_ok :: bool

type_synonym filesystem = "string \<Rightarrow> opened_file option"

text \<open>
  A local \<open>char\<close> array of \<open>n\<close> bytes that the code does not initialise holds whatever
  the stack held before; those bytes are an input (a shorter list stands for bytes
  followed by zeros).
\<close>

definition NUL :: char where
  "NUL = CHR 0x00"

definition char_array :: "nat \<Rightarrow> string \<Rightarrow> string" where
  "char_array n uninitialised = take n (uninitialised @ replicate n NUL)"

text \<open>
  \<open>read(fd, buf, sizeof buf)\<close>: the count returned and the buffer afterwards. Only the
  bytes delivered are written; the rest of the buffer keeps its contents.
\<close>

definition sys_read :: "opened_file \<Rightarrow> string \<Rightarrow> int \<times> string" where
  "sys_read f buf =
     (case read_result f of
        None \<Rightarrow> (- 1, buf)
      | Some data \<Rightarrow>
          (let n = min (length data) (length buf)
           in (int n, take n data @ drop n buf)))"


section \<open>Faults\<close>

text \<open>
  The ways a run of the Quota Reader ends without a value: a failed \<open>BOOST_VERIFY\<close>
  (the process aborts), and the undefined behaviours of the C++ it is written in.
\<close>

datatype verify_site = Read_Below_Buffer_Size | Close_Succeeded

datatype fault =
    Verify_Failed verify_site
  | Read_Past_Buffer
  | Signed_Overflow
  | Atoi_Out_Of_Range


section \<open>Decimal parsing\<close>

definition isspace :: "char \<Rightarrow> bool" where
  "isspace c = (let k = (of_char c :: nat) in k = 32 \<or> (9 \<le> k \<and> k \<le> 13))"

definition isdigit :: "char \<Rightarrow> bool" where
  "isdigit c = (let k = (of_char c :: nat) in 48 \<le> k \<and> k \<le> 57)"

definition digit_value :: "char \<Rightarrow> int" where
  "digit_value c = int (of_char c) - 48"

text \<open>
  The scanners walk the array; none of them knows its size, so reaching the end of the
  list means reading past the buffer.
\<close>

fun skip_spaces :: "string \<Rightarrow> string option" where
  "skip_spaces [] = None"
| "skip_spaces (c # cs) = (if isspace c then skip_spaces cs else Some (c # cs))"

fun scan_digits :: "int \<Rightarrow> string \<Rightarrow> (int \<times> string) option" where
  "scan_digits acc [] = None"
| "scan_digits acc (c # cs) =
     (if isdigit c then scan_digits (10 * acc + digit_value c) cs else Some (acc, c # cs))"

text \<open>
  The subject sequence of \<open>strtol\<close> and \<open>atoi\<close> in base 10: white space, an optional
  sign, digits. The result is the number written and the rest of the array; with no
  digit there is no conversion, the number is 0 and the rest is the whole input.
\<close>

definition parse_decimal :: "string \<Rightarrow> fault + (int \<times> string)" where
  "parse_decimal s =
     (case skip_spaces s of
        None \<Rightarrow> Inl Read_Past_Buffer
      | Some [] \<Rightarrow> Inl Read_Past_Buffer
      | Some (c # cs) \<Rightarrow>
          (let negative = (c = CHR ''-'');
               u = (if c = CHR ''-'' \<or> c = CHR ''+'' then cs else c # cs)
           in case u of
                [] \<Rightarrow> Inl Read_Past_Buffer
              | d # _ \<Rightarrow>
                  if \<not> isdigit d then Inr (0, s)
                  else (case scan_digits 0 u of
                          None \<Rightarrow> Inl Read_Past_Buffer
                        | Some (v, rest) \<Rightarrow> Inr (if negative then - v else v, rest))))"

text \<open>\<open>strtol\<close> returns \<open>LONG_MAX\<close> or \<open>LONG_MIN\<close> when the number is out of range.\<close>

definition strtol :: "nat \<Rightarrow> string \<Rightarrow> fault + (int \<times> string)" where
  "strtol lb s =
     (case parse_decimal s of
        Inl e \<Rightarrow> Inl e
      | Inr (v, rest) \<Rightarrow> Inr (max (LONG_MIN lb) (min (LONG_MAX lb) v), rest))"

text \<open>\<open>atoi\<close> has no defined result when the number does not fit an \<open>int\<close>.\<close>

definition atoi :: "string \<Rightarrow> fault + int" where
  "atoi s =
     (case parse_decimal s of
        Inl e \<Rightarrow> Inl e
      | Inr (v, rest) \<Rightarrow> if INT_MIN \<le> v \<and> v \<le> INT_MAX then Inr v else Inl Atoi_Out_Of_Range)"


section \<open>Quota Reader\<close>

text \<open>
  What the Quota Reader reads: the file system, and the bytes its three local arrays
  hold before anything is written to them (\<open>value_pair\<close> of \<open>get_docker_limit\<close>, and
  \<open>value\<close> of the first and of the second call of \<open>read_int\<close>).
\<close>

record machine =
  fs :: filesystem
  value_pair_before :: string
  quota_value_before :: string
  period_value_before :: string

definition read_int :: "build \<Rightarrow> filesystem \<Rightarrow> string \<Rightarrow> string \<Rightarrow> fault + int" where
  "read_int b files file_path value_before =
     (case files file_path of
        None \<Rightarrow> Inr (- 1)
      | Some fd \<Rightarrow>
          (let (n, val) = sys_read fd (char_array 64 value_before)
           in if verify_checks b \<and> \<not> n < 64 then Inl (Verify_Failed Read_Below_Buffer_Size)
              else if verify_checks b \<and> \<not> close_ok fd then Inl (Verify_Failed Close_Succeeded)
              else atoi val))"

text \<open>
  The first half of \<open>get_docker_limit\<close>: the values of \<open>cfs_quota\<close> and \<open>cfs_period\<close>
  when the \<open>if\<close> over the two formats is left.
\<close>

definition read_cfs_quota_period :: "build \<Rightarrow> machine \<Rightarrow> fault + (int \<times> int)" where
  "read_cfs_quota_period b m =
     (case fs m ''/sys/fs/cgroup/cpu.max'' of
        Some fd \<Rightarrow>
          (let (n, value_pair) = sys_read fd ((char_array 128 (value_pair_before m))[0 := NUL])
           in if verify_checks b \<and> \<not> n < 128 then Inl (Verify_Failed Read_Below_Buffer_Size)
              else if verify_checks b \<and> \<not> close_ok fd then Inl (Verify_Failed Close_Succeeded)
              else (case strtol (long_bits b) value_pair of
                      Inl e \<Rightarrow> Inl e
                    | Inr (quota, cfs_period_ptr) \<Rightarrow>
                        (case strtol (long_bits b) cfs_period_ptr of
                           Inl e \<Rightarrow> Inl e
                         | Inr (period, _) \<Rightarrow>
                             Inr (static_cast int_t quota, static_cast int_t period))))
      | None \<Rightarrow>
          (case read_int b (fs m) ''/sys/fs/cgroup/cpu/cpu.cfs_quota_us'' (quota_value_before m) of
             Inl e \<Rightarrow> Inl e
           | Inr cfs_quota \<Rightarrow>
               (case read_int b (fs m) ''/sys/fs/cgroup/cpu/cpu.cfs_period_us''
                       (period_value_before m) of
                  Inl e \<Rightarrow> Inl e
                | Inr cfs_period \<Rightarrow> Inr (cfs_quota, cfs_period))))"

text \<open>
  The second half: the rounding. The sum \<open>cfs_quota + cfs_period / 2\<close> is an \<open>int\<close>;
  when it passes \<open>INT_MAX\<close> the addition overflows, which C++ leaves undefined.
\<close>

definition round_quota :: "int \<Rightarrow> int \<Rightarrow> fault + int" where
  "round_quota cfs_quota cfs_period =
     (if cfs_quota > 0 \<and> cfs_period > 0 then
        (let sum = cfs_quota + c_div cfs_period 2
         in if INT_MAX < sum then Inl Signed_Overflow
            else Inr (max (static_cast int_t (c_div sum cfs_period)) 1))
      else Inr (- 1))"

definition get_docker_limit :: "build \<Rightarrow> machine \<Rightarrow> fault + int" where
  "get_docker_limit b m =
     (case read_cfs_quota_period b m of
        Inl e \<Rightarrow> Inl e
      | Inr (cfs_quota, cfs_period) \<Rightarrow> round_quota cfs_quota cfs_period)"

text \<open>
  The constructor of \<open>docker_quota_t\<close> stores the limit in the member \<open>value\<close>; the
  global \<open>docker_quota\<close> is constant from then on, and the queries below take it as an
  argument.
\<close>

definition docker_quota_t :: "build \<Rightarrow> machine \<Rightarrow> fault + int" where
  "docker_quota_t b m = get_docker_limit b m"


section \<open>Concurrency Resolver\<close>

definition get_hardware_concurrency_max :: "build \<Rightarrow> int \<Rightarrow> os_probe \<Rightarrow> int" where
  "get_hardware_concurrency_max b docker_quota os =
     (if BOOST_SWEATER_MAX_HARDWARE_CONCURRENCY b = 1 then
        static_cast (hardware_concurrency_t b) 1
      else if BOOST_SWEATER_DOCKER_LIMITS b then
        static_cast (hardware_concurrency_t b)
          (if docker_quota \<noteq> - 1 then docker_quota else get_nprocs_conf os)
      else if EMSCRIPTEN_PTHREADS b then
        static_cast (hardware_concurrency_t b)
          (if emscripten_has_threading_support os \<noteq> 0 then emscripten_num_logical_cores os
           else 1)
      else if LINUX b then
        static_cast (hardware_concurrency_t b) (get_nprocs_conf os)
      else
        static_cast (hardware_concurrency_t b) (int (std_thread_hardware_concurrency os)))"

definition hardware_concurrency_current :: "build \<Rightarrow> int \<Rightarrow> os_probe \<Rightarrow> int" where
  "hardware_concurrency_current b docker_quota os =
     (if BOOST_SWEATER_MAX_HARDWARE_CONCURRENCY b = 1 then
        static_cast (hardware_concurrency_t b) 1
      else if BOOST_SWEATER_DOCKER_LIMITS b then
        static_cast (hardware_concurrency_t b)
          (if docker_quota \<noteq> - 1 then docker_quota else get_nprocs os)
      else if EMSCRIPTEN_PTHREADS b then
        static_cast (hardware_concurrency_t b) (get_hardware_concurrency_max b docker_quota os)
      else if LINUX b then
        static_cast (hardware_concurrency_t b) (get_nprocs os)
      else
        static_cast (hardware_concurrency_t b) (int (std_thread_hardware_concurrency os)))"


section \<open>Capability Flags\<close>

text \<open>The constructor of \<open>slow_thread_signals_t\<close>, compiled on Android only.\<close>

definition slow_thread_signals_t :: "os_probe \<Rightarrow> bool" where
  "slow_thread_signals_t os = (android_get_device_api_level os < 24)"

text \<open>
  Modelled from the spec: the declaration of \<open>slow_thread_signals\<close> for targets other
  than Android is in \<open>hardware_concurrency.hpp\<close>, which is not among the sources. The
  spec (4.4): "On all other platforms this flag is statically false and costs nothing at
  runtime."
\<close>

definition slow_thread_signals :: "build \<Rightarrow> os_probe \<Rightarrow> bool" where
  "slow_thread_signals b os = (if ANDROID b then slow_thread_signals_t os else False)"


section \<open>Predicates on the inputs\<close>

text \<open>
  The bytes start with a token that is not a number: after white space and an optional
  sign, the next byte is there and is not a digit (\<open>max\<close> in \<open>cpu.max\<close>).
\<close>

fun non_numeric_lead :: "string \<Rightarrow> bool" where
  "non_numeric_lead [] = False"
| "non_numeric_lead (c # cs) =
     (if isspace c then non_numeric_lead cs
      else if c = CHR ''-'' \<or> c = CHR ''+'' then (case cs of [] \<Rightarrow> False | d # _ \<Rightarrow> \<not> isdigit d)
      else \<not> isdigit c)"

text \<open>What the kernel delivers for a path, if anything, is shorter than \<open>n\<close> bytes.\<close>

definition output_shorter_than :: "nat \<Rightarrow> opened_file option \<Rightarrow> bool" where
  "output_shorter_than n f =
     (case f of
        None \<Rightarrow> True
      | Some fd \<Rightarrow> (case read_result fd of None \<Rightarrow> True | Some data \<Rightarrow> length data < n))"

definition quota_files_fit_buffers :: "machine \<Rightarrow> bool" where
  "quota_files_fit_buffers m =
     (output_shorter_than 128 (fs m ''/sys/fs/cgroup/cpu.max'')
      \<and> output_shorter_than 64 (fs m ''/sys/fs/cgroup/cpu/cpu.cfs_quota_us'')
      \<and> output_shorter_than 64 (fs m ''/sys/fs/cgroup/cpu/cpu.cfs_period_us''))"

text \<open>The same machine with every \<open>close\<close> returning 0.\<close>

definition closes_cleanly :: "machine \<Rightarrow> machine" where
  "closes_cleanly m =
     m\<lparr>fs := (\<lambda>path. map_option (\<lambda>fd. fd\<lparr>close_ok := True\<rparr>) (fs m path))\<rparr>"

text \<open>
  A value a caller can size a pool with: at least 1, and a value of the type it is
  returned in.
\<close>

definition usable :: "int_type \<Rightarrow> int \<Rightarrow> bool" where
  "usable T x = (1 \<le> x \<and> representable T x)"


section \<open>Example configurations\<close>

text \<open>
  A container build for Linux with checking assertions, a machine whose only cgroup
  file is \<open>cpu.max\<close> with a given content, and a Linux that reports the given
  configured and online processor counts.
\<close>

definition linux_docker_build :: build where
  "linux_docker_build =
     \<lparr>BOOST_SWEATER_MAX_HARDWARE_CONCURRENCY = 0, BOOST_SWEATER_DOCKER_LIMITS = True,
      EMSCRIPTEN_PTHREADS = False, LINUX = True, ANDROID = False,
      hardware_concurrency_t = \<lparr>bits = 16, is_signed = False\<rparr>,
      long_bits = 64, verify_checks = True\<rparr>"

definition cpu_max_only :: "string \<Rightarrow> machine" where
  "cpu_max_only content =
     \<lparr>fs = (\<lambda>path. None)
             (''/sys/fs/cgroup/cpu.max'' := Some \<lparr>read_result = Some content, close_ok = True\<rparr>),
      value_pair_before = [], quota_value_before = [], period_value_before = []\<rparr>"

definition generic_build :: build where
  "generic_build =
     \<lparr>BOOST_SWEATER_MAX_HARDWARE_CONCURRENCY = 0, BOOST_SWEATER_DOCKER_LIMITS = False,
      EMSCRIPTEN_PTHREADS = False, LINUX = False, ANDROID = False,
      hardware_concurrency_t = \<lparr>bits = 16, is_signed = False\<rparr>,
      long_bits = 64, verify_checks = False\<rparr>"

text \<open>
  A platform whose \<open>std::thread::hardware_concurrency()\<close> returns 0, as the standard
  lets it when the number is not computable.
\<close>

definition unknown_concurrency_os :: os_probe where
  "unknown_concurrency_os =
     \<lparr>get_nprocs_conf = 0, get_nprocs = 0,
      emscripten_has_threading_support = 0, emscripten_num_logical_cores = 0,
      std_thread_hardware_concurrency = 0, android_get_device_api_level = 0\<rparr>"

text \<open>A machine on which \<open>read\<close> of \<open>cpu.max\<close> fails.\<close>

definition cpu_max_read_fails :: machine where
  "cpu_max_read_fails =
     \<lparr>fs = (\<lambda>path. None)
             (''/sys/fs/cgroup/cpu.max'' := Some \<lparr>read_result = None, close_ok = True\<rparr>),
      value_pair_before = ''777'', quota_value_before = [], period_value_before = []\<rparr>"

definition no_cgroup_files :: machine where
  "no_cgroup_files =
     \<lparr>fs = (\<lambda>path. None),
      value_pair_before = [], quota_value_before = [], period_value_before = []\<rparr>"

text \<open>
  A cgroup v1 machine on which \<open>read\<close> of the quota file fails, with the digits
  \<open>250000\<close> left on the stack where \<open>value\<close> is placed.
\<close>

definition quota_read_fails :: machine where
  "quota_read_fails =
     \<lparr>fs = (\<lambda>path. None)
             (''/sys/fs/cgroup/cpu/cpu.cfs_quota_us'' :=
                Some \<lparr>read_result = None, close_ok = True\<rparr>,
              ''/sys/fs/cgroup/cpu/cpu.cfs_period_us'' :=
                Some \<lparr>read_result = Some ''100000\<newline>'', close_ok = True\<rparr>),
      value_pair_before = [], quota_value_before = ''250000'', period_value_before = []\<rparr>"

text \<open>A machine on which \<open>close\<close> of \<open>cpu.max\<close> fails.\<close>

definition cpu_max_close_fails :: machine where
  "cpu_max_close_fails =
     \<lparr>fs = (\<lambda>path. None)
             (''/sys/fs/cgroup/cpu.max'' :=
                Some \<lparr>read_result = Some ''max 100000\<newline>'', close_ok = False\<rparr>),
      value_pair_before = [], quota_value_before = [], period_value_before = []\<rparr>"

text \<open>The container build with \<open>NDEBUG\<close>: \<open>BOOST_VERIFY\<close> does not check.\<close>

definition linux_docker_release_build :: build where
  "linux_docker_release_build = linux_docker_build\<lparr>verify_checks := False\<rparr>"

text \<open>The container build with a signed 32-bit \<open>hardware_concurrency_t\<close>.\<close>

definition linux_docker_signed_build :: build where
  "linux_docker_signed_build = linux_docker_build\<lparr>hardware_concurrency_t := int_t\<rparr>"

text \<open>
  A cgroup v1 machine: no \<open>cpu.max\<close>, and the two files with the given contents and
  results of \<open>close\<close>.
\<close>

definition cgroup_v1_only :: "string \<Rightarrow> bool \<Rightarrow> string \<Rightarrow> bool \<Rightarrow> machine" where
  "cgroup_v1_only quota quota_closes period period_closes =
     \<lparr>fs = (\<lambda>path. None)
             (''/sys/fs/cgroup/cpu/cpu.cfs_quota_us'' :=
                Some \<lparr>read_result = Some quota, close_ok = quota_closes\<rparr>,
              ''/sys/fs/cgroup/cpu/cpu.cfs_period_us'' :=
                Some \<lparr>read_result = Some period, close_ok = period_closes\<rparr>),
      value_pair_before = [], quota_value_before = [], period_value_before = []\<rparr>"

definition linux_os :: "int \<Rightarrow> int \<Rightarrow> os_probe" where
  "linux_os configured online =
     \<lparr>get_nprocs_conf = configured, get_nprocs = online,
      emscripten_has_threading_support = 0, emscripten_num_logical_cores = 0,
      std_thread_hardware_concurrency = 0, android_get_device_api_level = 0\<rparr>"


section \<open>Conversions and division\<close>

lemma static_cast_representable:
  "representable T x \<Longrightarrow> static_cast T x = x"
  by (auto simp: representable_def static_cast_def take_bit_int_eq_self_iff
        signed_take_bit_int_eq_self_iff)

lemma c_div_nonneg: "0 \<le> a \<Longrightarrow> 0 < b \<Longrightarrow> c_div a b = a div b"
  by (cases "a = 0") (simp_all add: c_div_def)


section \<open>The rounding\<close>

text \<open>
  While the sum stays within \<open>int\<close>, the rounding is \<open>(quota + period / 2) / period\<close>
  over the integers, raised to 1.
\<close>

lemma round_quota_defined:
  assumes "0 < q" "0 < p" "q + p div 2 \<le> INT_MAX"
  shows "round_quota q p = Inr (max 1 ((q + p div 2) div p))"
proof -
  have half: "c_div p 2 = p div 2"
    using assms by (simp add: c_div_nonneg)
  have quot: "c_div (q + p div 2) p = (q + p div 2) div p"
    using assms by (simp add: c_div_nonneg)
  have lo: "0 \<le> (q + p div 2) div p"
    using assms by (simp add: pos_imp_zdiv_nonneg_iff)
  have "(q + p div 2) div p \<le> q + p div 2"
    using zdiv_mono2 [of "q + p div 2" 1 p] assms by simp
  then have hi: "(q + p div 2) div p < 2 ^ 31"
    using assms by (simp add: INT_MAX_def)
  have "static_cast int_t ((q + p div 2) div p) = (q + p div 2) div p"
    using lo hi by (intro static_cast_representable) (simp add: representable_def int_t_def)
  then show ?thesis
    using assms by (simp add: round_quota_def half quot max.commute)
qed

lemma round_quota_overflow:
  "0 < q \<Longrightarrow> 0 < p \<Longrightarrow> INT_MAX < q + p div 2 \<Longrightarrow> round_quota q p = Inl Signed_Overflow"
  by (simp add: round_quota_def c_div_nonneg)

lemma round_quota_absent:
  "q \<le> 0 \<or> p \<le> 0 \<Longrightarrow> round_quota q p = Inr (- 1)"
  by (auto simp: round_quota_def)

lemma round_quota_range:
  "round_quota q p = Inr r \<Longrightarrow> r = - 1 \<or> 1 \<le> r"
  by (auto simp: round_quota_def Let_def split: if_splits)

lemma get_docker_limit_range:
  "get_docker_limit b m = Inr r \<Longrightarrow> r = - 1 \<or> 1 \<le> r"
  by (auto simp: get_docker_limit_def split: sum.splits dest: round_quota_range)

lemma get_docker_limit_defined:
  assumes "read_cfs_quota_period b m = Inr (q, p)" "0 < q" "0 < p" "q + p div 2 \<le> INT_MAX"
  shows "get_docker_limit b m = Inr (max 1 ((q + p div 2) div p))"
  using assms by (simp add: get_docker_limit_def round_quota_defined)

text \<open>The quotient is \<open>quota / period\<close> rounded to the nearest integer, halves upwards.\<close>

lemma round_half_up:
  fixes q p :: int
  assumes "0 < p"
  shows "(q + p div 2) div p = (2 * q + p) div (2 * p)"
proof -
  have "(2 * q + p) div (2 * p) = ((2 * q + p) div 2) div p"
    using assms by (simp add: zdiv_zmult2_eq)
  also have "(2 * q + p) div 2 = q + p div 2"
    by simp
  finally show ?thesis by simp
qed

text \<open>
  A quota that does not fit an \<open>int\<close> is reduced modulo \<open>2 ^ 32\<close> by the conversion from
  \<open>long\<close> before it is rounded.
\<close>

lemma get_docker_limit_truncates_quota:
  "read_cfs_quota_period linux_docker_build (cpu_max_only ''4294967297 100000\<newline>'')
     = Inr (1, 100000)
   \<and> get_docker_limit linux_docker_build (cpu_max_only ''4294967297 100000\<newline>'') = Inr 1"
  by code_simp

lemma get_docker_limit_one_and_a_half:
  "get_docker_limit linux_docker_build (cpu_max_only ''150000 100000\<newline>'') = Inr 2"
  by code_simp

lemma get_docker_limit_half:
  "get_docker_limit linux_docker_build (cpu_max_only ''50000 100000\<newline>'') = Inr 1"
  by code_simp

text \<open>
  C1. For every pair \<open>quota > 0\<close>, \<open>period > 0\<close> read from the cgroup interface,
  \<open>get_docker_limit\<close> is to return \<open>max(1, (quota + period / 2) / period)\<close>. The code
  forms the sum in \<open>int\<close>: for the content \<open>2147483647 100000\<close> of \<open>cpu.max\<close> both
  values are positive \<open>int\<close>s, the sum passes \<open>INT_MAX\<close>, and the run ends in a signed
  overflow instead of returning 21475.
\<close>

theorem get_docker_limit_sum_overflows:
  "read_cfs_quota_period linux_docker_build (cpu_max_only ''2147483647 100000\<newline>'')
     = Inr (2147483647, 100000)
   \<and> get_docker_limit linux_docker_build (cpu_max_only ''2147483647 100000\<newline>'')
     = Inl Signed_Overflow
   \<and> max 1 ((2147483647 + 100000 div 2) div 100000) = (21475 :: int)"
  by code_simp


section \<open>The resolver's policy\<close>

text \<open>
  C3, as the code has it. In the quota-aware build, for every cached quota and every
  value of the OS probes: when the quota is present (not -1) both queries return the
  quota converted to \<open>hardware_concurrency_t\<close>; when it is absent
  \<open>get_hardware_concurrency_max\<close> returns \<open>get_nprocs_conf()\<close> and
  \<open>hardware_concurrency_current\<close> returns \<open>get_nprocs()\<close>, each converted to
  \<open>hardware_concurrency_t\<close>. The conversion leaves every value of that type unchanged.
\<close>

theorem quota_aware_policy:
  assumes "BOOST_SWEATER_MAX_HARDWARE_CONCURRENCY b \<noteq> 1" and "BOOST_SWEATER_DOCKER_LIMITS b"
  shows "(docker_quota \<noteq> - 1 \<longrightarrow>
            get_hardware_concurrency_max b docker_quota os
              = static_cast (hardware_concurrency_t b) docker_quota
          \<and> hardware_concurrency_current b docker_quota os
              = static_cast (hardware_concurrency_t b) docker_quota
          \<and> (representable (hardware_concurrency_t b) docker_quota \<longrightarrow>
                get_hardware_concurrency_max b docker_quota os = docker_quota
              \<and> hardware_concurrency_current b docker_quota os = docker_quota))
       \<and> (docker_quota = - 1 \<longrightarrow>
            get_hardware_concurrency_max b docker_quota os
              = static_cast (hardware_concurrency_t b) (get_nprocs_conf os)
          \<and> hardware_concurrency_current b docker_quota os
              = static_cast (hardware_concurrency_t b) (get_nprocs os)
          \<and> (representable (hardware_concurrency_t b) (get_nprocs_conf os) \<longrightarrow>
                get_hardware_concurrency_max b docker_quota os = get_nprocs_conf os)
          \<and> (representable (hardware_concurrency_t b) (get_nprocs os) \<longrightarrow>
                hardware_concurrency_current b docker_quota os = get_nprocs os))"
  using assms
  by (simp add: get_hardware_concurrency_max_def hardware_concurrency_current_def
        static_cast_representable)

theorem quota_aware_policy_witness:
  "get_hardware_concurrency_max linux_docker_build 4 (linux_os 16 8) = 4
   \<and> hardware_concurrency_current linux_docker_build 4 (linux_os 16 8) = 4
   \<and> get_hardware_concurrency_max linux_docker_build (- 1) (linux_os 16 8) = 16
   \<and> hardware_concurrency_current linux_docker_build (- 1) (linux_os 16 8) = 8"
  using quota_aware_policy [of linux_docker_build 4 "linux_os 16 8"]
    quota_aware_policy [of linux_docker_build "- 1" "linux_os 16 8"]
  by (simp add: linux_docker_build_def linux_os_def representable_def)

text \<open>
  C3 as stated fails where the value selected is not a value of
  \<open>hardware_concurrency_t\<close>. With a 16-bit unsigned type, the quota 65536 that the Quota
  Reader returns for \<open>65536000 1000\<close> comes back as 0, and a count of -1 from the OS as
  65535.
\<close>

theorem quota_aware_policy_counterexample:
  "docker_quota_t linux_docker_build (cpu_max_only ''65536000 1000\<newline>'') = Inr 65536
   \<and> get_hardware_concurrency_max linux_docker_build 65536 (linux_os 16 8) = 0
   \<and> hardware_concurrency_current linux_docker_build 65536 (linux_os 16 8) = 0
   \<and> get_hardware_concurrency_max linux_docker_build (- 1) (linux_os (- 1) (- 1)) = 65535
   \<and> hardware_concurrency_current linux_docker_build (- 1) (linux_os (- 1) (- 1)) = 65535"
  by code_simp

text \<open>
  C10. In the quota-aware build, whenever the quota is present, every call of
  \<open>hardware_concurrency_current\<close> returns what \<open>get_hardware_concurrency_max\<close> returns,
  whatever the operating system reports at either call; so current \<open>\<le>\<close> max there.
\<close>

theorem quota_present_current_is_max:
  assumes "BOOST_SWEATER_MAX_HARDWARE_CONCURRENCY b \<noteq> 1" and "BOOST_SWEATER_DOCKER_LIMITS b"
    and "docker_quota \<noteq> - 1"
  shows "hardware_concurrency_current b docker_quota os
           = get_hardware_concurrency_max b docker_quota os'
       \<and> hardware_concurrency_current b docker_quota os
           \<le> get_hardware_concurrency_max b docker_quota os'"
  using assms
  by (simp add: get_hardware_concurrency_max_def hardware_concurrency_current_def)

theorem quota_present_current_is_max_witness:
  "hardware_concurrency_current linux_docker_build 3 (linux_os 16 2)
     = get_hardware_concurrency_max linux_docker_build 3 (linux_os 32 32)
   \<and> hardware_concurrency_current linux_docker_build 3 (linux_os 16 2)
     \<le> get_hardware_concurrency_max linux_docker_build 3 (linux_os 32 32)"
  using quota_present_current_is_max [of linux_docker_build 3 "linux_os 16 2" "linux_os 32 32"]
  by (simp add: linux_docker_build_def)


section \<open>The capability flag\<close>

text \<open>
  C7. \<open>slow_thread_signals\<close> is true exactly on Android with an API level strictly
  below 24; it is false from level 24 on, and false on every other platform.
\<close>

theorem slow_thread_signals_iff:
  "slow_thread_signals b os = (ANDROID b \<and> android_get_device_api_level os < 24)"
  by (simp add: slow_thread_signals_def slow_thread_signals_t_def)


section \<open>Parsing and the guards of the reads\<close>

lemma LONG_range: "LONG_MIN lb \<le> 0" "0 \<le> LONG_MAX lb"
  by (simp_all add: LONG_MIN_def LONG_MAX_def)

lemma static_cast_int_0: "static_cast int_t 0 = 0"
  by (simp add: static_cast_def int_t_def)

lemma skip_spaces_non_numeric:
  "non_numeric_lead xs \<Longrightarrow>
     \<exists>c cs. skip_spaces (xs @ ys) = Some (c # cs) \<and>
       (if c = CHR ''-'' \<or> c = CHR ''+'' then (\<exists>d ds. cs = d # ds \<and> \<not> isdigit d)
        else \<not> isdigit c)"
proof (induction xs)
  case Nil
  then show ?case by simp
next
  case (Cons x xs)
  show ?case
  proof (cases "isspace x")
    case True
    with Cons show ?thesis by simp
  next
    case False
    with Cons.prems show ?thesis
      by (cases xs) (auto split: if_splits)
  qed
qed

lemma parse_decimal_non_numeric:
  assumes "non_numeric_lead xs"
  shows "parse_decimal (xs @ ys) = Inr (0, xs @ ys)"
proof -
  obtain c cs where s: "skip_spaces (xs @ ys) = Some (c # cs)"
    and c: "if c = CHR ''-'' \<or> c = CHR ''+'' then (\<exists>d ds. cs = d # ds \<and> \<not> isdigit d)
            else \<not> isdigit c"
    using skip_spaces_non_numeric [OF assms] by blast
  show ?thesis
  proof (cases "c = CHR ''-'' \<or> c = CHR ''+''")
    case True
    with c obtain d ds where "cs = d # ds" "\<not> isdigit d" by auto
    with True s show ?thesis by (auto simp: parse_decimal_def)
  next
    case False
    with c s show ?thesis by (simp add: parse_decimal_def)
  qed
qed

lemma strtol_non_numeric:
  "non_numeric_lead xs \<Longrightarrow> strtol lb (xs @ ys) = Inr (0, xs @ ys)"
  using LONG_range [of lb] by (simp add: strtol_def parse_decimal_non_numeric)

lemma length_char_array [simp]: "length (char_array n g) = n"
  by (simp add: char_array_def)

lemma isdigit_NUL [simp]: "\<not> isdigit NUL" "\<not> isspace NUL" "NUL \<noteq> CHR ''-''" "NUL \<noteq> CHR ''+''"
  by (simp_all add: isdigit_def isspace_def NUL_def)

lemma parse_decimal_NUL: "parse_decimal (NUL # cs) = Inr (0, NUL # cs)"
  by (simp add: parse_decimal_def)

lemma strtol_NUL: "strtol lb (NUL # cs) = Inr (0, NUL # cs)"
  using LONG_range [of lb] by (simp add: strtol_def parse_decimal_NUL)

lemma value_pair_terminated:
  "\<exists>rest. (char_array 128 g)[0 := NUL] = NUL # rest"
  by (cases "char_array 128 g") (use length_char_array [of 128 g] in auto)


lemma take_min_length: "take (min (length xs) n) xs = take n xs"
  by (simp add: min_def)

lemma unified_non_numeric:
  assumes "fs m ''/sys/fs/cgroup/cpu.max'' = Some fd"
    and "read_result fd = Some content"
    and "non_numeric_lead (take 128 content)"
    and "verify_checks b \<longrightarrow> length content < 128 \<and> close_ok fd"
  shows "read_cfs_quota_period b m = Inr (0, 0)"
proof -
  define buf where "buf = (char_array 128 (value_pair_before m))[0 := NUL]"
  have len: "length buf = 128" by (simp add: buf_def)
  have rd: "sys_read fd buf
      = (int (min (length content) 128), take 128 content @ drop (min (length content) 128) buf)"
    using assms(2) len by (simp add: sys_read_def Let_def take_min_length)
  show ?thesis
    using assms(1,3,4)
    by (simp add: read_cfs_quota_period_def buf_def [symmetric] rd strtol_non_numeric
          static_cast_int_0)
qed

lemma unified_read_fails:
  assumes "fs m ''/sys/fs/cgroup/cpu.max'' = Some fd"
    and "read_result fd = None"
    and "verify_checks b \<longrightarrow> close_ok fd"
  shows "read_cfs_quota_period b m = Inr (0, 0)"
proof -
  obtain rest where buf: "(char_array 128 (value_pair_before m))[0 := NUL] = NUL # rest"
    using value_pair_terminated by blast
  show ?thesis
    using assms
    by (simp add: read_cfs_quota_period_def buf sys_read_def strtol_NUL static_cast_int_0)
qed

lemma unified_read_empty:
  assumes "fs m ''/sys/fs/cgroup/cpu.max'' = Some fd"
    and "read_result fd = Some []"
    and "verify_checks b \<longrightarrow> close_ok fd"
  shows "read_cfs_quota_period b m = Inr (0, 0)"
proof -
  obtain rest where buf: "(char_array 128 (value_pair_before m))[0 := NUL] = NUL # rest"
    using value_pair_terminated by blast
  show ?thesis
    using assms
    by (simp add: read_cfs_quota_period_def buf sys_read_def strtol_NUL static_cast_int_0)
qed

lemma read_int_open_fails: "files path = None \<Longrightarrow> read_int b files path g = Inr (- 1)"
  by (simp add: read_int_def)

lemma sys_read_count:
  "fst (sys_read fd buf) =
     (case read_result fd of None \<Rightarrow> - 1 | Some data \<Rightarrow> int (min (length data) (length buf)))"
  by (simp add: sys_read_def Let_def split: option.splits)

lemma parse_decimal_fault: "parse_decimal s = Inl e \<Longrightarrow> e = Read_Past_Buffer"
  by (auto simp: parse_decimal_def Let_def split: option.splits list.splits if_splits)

lemma strtol_fault: "strtol lb s = Inl e \<Longrightarrow> e = Read_Past_Buffer"
  by (auto simp: strtol_def split: sum.splits dest: parse_decimal_fault)

lemma atoi_fault: "atoi s = Inl e \<Longrightarrow> e = Read_Past_Buffer \<or> e = Atoi_Out_Of_Range"
  by (auto simp: atoi_def split: sum.splits if_splits dest: parse_decimal_fault)

lemma read_int_guard_holds:
  assumes "output_shorter_than 64 (files path)"
  shows "read_int b files path g \<noteq> Inl (Verify_Failed Read_Below_Buffer_Size)"
proof (cases "files path")
  case None
  then show ?thesis by (simp add: read_int_def)
next
  case (Some fd)
  have n: "fst (sys_read fd (char_array 64 g)) < 64"
    using assms Some by (simp add: sys_read_count output_shorter_than_def split: option.splits)
  show ?thesis
    using n Some
    by (auto simp: read_int_def split: prod.splits dest: atoi_fault)
qed

lemma read_int_guard_fails:
  assumes "files path = Some fd" and "verify_checks b"
    and "fst (sys_read fd (char_array 64 g)) = 64"
  shows "read_int b files path g = Inl (Verify_Failed Read_Below_Buffer_Size)"
  using assms by (cases "sys_read fd (char_array 64 g)") (simp add: read_int_def)

lemma unified_guard_fails:
  assumes "fs m ''/sys/fs/cgroup/cpu.max'' = Some fd" and "verify_checks b"
    and "fst (sys_read fd ((char_array 128 (value_pair_before m))[0 := NUL])) = 128"
  shows "read_cfs_quota_period b m = Inl (Verify_Failed Read_Below_Buffer_Size)"
  using assms
  by (cases "sys_read fd ((char_array 128 (value_pair_before m))[0 := NUL])")
    (simp add: read_cfs_quota_period_def)

lemma unified_close_fails:
  assumes "fs m ''/sys/fs/cgroup/cpu.max'' = Some fd" and "verify_checks b"
    and "output_shorter_than 128 (Some fd)" and "\<not> close_ok fd"
  shows "read_cfs_quota_period b m = Inl (Verify_Failed Close_Succeeded)"
proof -
  have "fst (sys_read fd ((char_array 128 (value_pair_before m))[0 := NUL])) < 128"
    using assms(3) by (simp add: sys_read_count output_shorter_than_def split: option.splits)
  then show ?thesis
    using assms(1,2,4)
    by (cases "sys_read fd ((char_array 128 (value_pair_before m))[0 := NUL])")
      (simp add: read_cfs_quota_period_def)
qed

lemma read_cfs_guard_holds:
  assumes "quota_files_fit_buffers m"
  shows "read_cfs_quota_period b m \<noteq> Inl (Verify_Failed Read_Below_Buffer_Size)"
proof (cases "fs m ''/sys/fs/cgroup/cpu.max''")
  case None
  have q: "read_int b (fs m) ''/sys/fs/cgroup/cpu/cpu.cfs_quota_us'' (quota_value_before m)
             \<noteq> Inl (Verify_Failed Read_Below_Buffer_Size)"
    using assms by (intro read_int_guard_holds) (simp add: quota_files_fit_buffers_def)
  have p: "read_int b (fs m) ''/sys/fs/cgroup/cpu/cpu.cfs_period_us'' (period_value_before m)
             \<noteq> Inl (Verify_Failed Read_Below_Buffer_Size)"
    using assms by (intro read_int_guard_holds) (simp add: quota_files_fit_buffers_def)
  show ?thesis
    using None q p by (auto simp: read_cfs_quota_period_def split: sum.splits)
next
  case (Some fd)
  have n: "fst (sys_read fd ((char_array 128 (value_pair_before m))[0 := NUL])) < 128"
    using assms Some
    by (simp add: sys_read_count quota_files_fit_buffers_def output_shorter_than_def
          split: option.splits)
  show ?thesis
    using n Some
    by (auto simp: read_cfs_quota_period_def split: prod.splits sum.splits dest: strtol_fault)
qed

lemma round_quota_fault: "round_quota q p = Inl e \<Longrightarrow> e = Signed_Overflow"
  by (auto simp: round_quota_def Let_def split: if_splits)

lemma get_docker_limit_guard_holds:
  assumes "quota_files_fit_buffers m"
  shows "get_docker_limit b m \<noteq> Inl (Verify_Failed Read_Below_Buffer_Size)"
  using read_cfs_guard_holds [OF assms, of b]
  by (auto simp: get_docker_limit_def split: sum.splits dest: round_quota_fault)

lemma get_docker_limit_unchecked:
  assumes "\<not> verify_checks b"
  shows "get_docker_limit b m \<noteq> Inl (Verify_Failed site)"
proof -
  have r: "read_int b files path g \<noteq> Inl (Verify_Failed site)" for files path g
    using assms
    by (auto simp: read_int_def split: option.splits prod.splits dest: atoi_fault)
  have "read_cfs_quota_period b m \<noteq> Inl (Verify_Failed site)"
    using assms r
    by (auto simp: read_cfs_quota_period_def
          split: option.splits prod.splits sum.splits dest: strtol_fault)
  then show ?thesis
    by (auto simp: get_docker_limit_def split: sum.splits dest: round_quota_fault)
qed

lemma static_cast_usable: "usable T x \<Longrightarrow> 1 \<le> static_cast T x"
  by (simp add: usable_def static_cast_representable)

lemma static_cast_twice: "representable T x \<Longrightarrow> static_cast T (static_cast T x) = x"
  by (simp add: static_cast_representable)


lemma sys_read_close_ok: "sys_read (fd\<lparr>close_ok := c\<rparr>) buf = sys_read fd buf"
  by (simp add: sys_read_def)

lemma read_int_close_ignored:
  assumes "\<not> verify_checks b"
  shows "read_int b (\<lambda>path. map_option (\<lambda>fd. fd\<lparr>close_ok := True\<rparr>) (files path)) p g
           = read_int b files p g"
  using assms by (simp add: read_int_def sys_read_close_ok split: option.splits)

lemma get_docker_limit_close_ignored:
  assumes "\<not> verify_checks b"
  shows "get_docker_limit b (closes_cleanly m) = get_docker_limit b m"
proof -
  have r: "read_int b (fs (closes_cleanly m)) p g = read_int b (fs m) p g" for p g
    using read_int_close_ignored [OF assms, of "fs m" p g] by (simp add: closes_cleanly_def)
  have before: "value_pair_before (closes_cleanly m) = value_pair_before m"
    "quota_value_before (closes_cleanly m) = quota_value_before m"
    "period_value_before (closes_cleanly m) = period_value_before m"
    by (simp_all add: closes_cleanly_def)
  have "read_cfs_quota_period b (closes_cleanly m) = read_cfs_quota_period b m"
  proof (cases "fs m ''/sys/fs/cgroup/cpu.max''")
    case None
    then have "fs (closes_cleanly m) ''/sys/fs/cgroup/cpu.max'' = None"
      by (simp add: closes_cleanly_def)
    with None show ?thesis
      by (simp add: read_cfs_quota_period_def r before cong: sum.case_cong)
  next
    case (Some fd)
    then have "fs (closes_cleanly m) ''/sys/fs/cgroup/cpu.max'' = Some (fd\<lparr>close_ok := True\<rparr>)"
      by (simp add: closes_cleanly_def)
    with Some show ?thesis
      using assms by (simp add: read_cfs_quota_period_def before sys_read_close_ok)
  qed
  then show ?thesis by (simp add: get_docker_limit_def)
qed

lemma read_int_close_fails:
  assumes "files path = Some fd" and "verify_checks b"
    and "output_shorter_than 64 (Some fd)" and "\<not> close_ok fd"
  shows "read_int b files path g = Inl (Verify_Failed Close_Succeeded)"
proof -
  have "fst (sys_read fd (char_array 64 g)) < 64"
    using assms(3) by (simp add: sys_read_count output_shorter_than_def split: option.splits)
  then show ?thesis
    using assms(1,2,4) by (cases "sys_read fd (char_array 64 g)") (simp add: read_int_def)
qed

lemma read_int_reads:
  assumes "files path = Some fd" and "read_result fd = Some content" and "length content < 64"
    and "verify_checks b \<longrightarrow> close_ok fd"
  shows "read_int b files path g = atoi (content @ drop (length content) (char_array 64 g))"
  using assms by (auto simp: read_int_def sys_read_def Let_def min_def)

lemma legacy_both:
  assumes "fs m ''/sys/fs/cgroup/cpu.max'' = None"
  shows "read_int b (fs m) ''/sys/fs/cgroup/cpu/cpu.cfs_quota_us'' (quota_value_before m) = Inr q
       \<Longrightarrow> read_int b (fs m) ''/sys/fs/cgroup/cpu/cpu.cfs_period_us'' (period_value_before m) = Inr p
       \<Longrightarrow> read_cfs_quota_period b m = Inr (q, p)"
    and "read_int b (fs m) ''/sys/fs/cgroup/cpu/cpu.cfs_quota_us'' (quota_value_before m) = Inl e
       \<Longrightarrow> read_cfs_quota_period b m = Inl e"
    and "read_int b (fs m) ''/sys/fs/cgroup/cpu/cpu.cfs_quota_us'' (quota_value_before m) = Inr q
       \<Longrightarrow> read_int b (fs m) ''/sys/fs/cgroup/cpu/cpu.cfs_period_us'' (period_value_before m) = Inl e
       \<Longrightarrow> read_cfs_quota_period b m = Inl e"
  using assms by (simp_all add: read_cfs_quota_period_def)


section \<open>The Quota Reader on unlimited, missing and unreadable files\<close>

text \<open>
  C4, as the code has it. Let \<open>cpu.max\<close> open and deliver a content that starts with a
  token that is not a number (the marker \<open>max\<close>), or whose parsed quota or period is zero
  or negative. Where \<open>BOOST_VERIFY\<close> does not check, or the content is shorter than the
  128-byte buffer and \<open>close\<close> succeeds, \<open>get_docker_limit\<close> returns -1. Where
  \<open>BOOST_VERIFY\<close> checks, a content of 128 bytes or more, or a failing \<open>close\<close>, ends
  the process instead. With the quota absent the two queries return \<open>get_nprocs_conf()\<close>
  and \<open>get_nprocs()\<close> converted to \<open>hardware_concurrency_t\<close>: the OS value itself when
  it is a value of that type, and then -1 only if the OS reports -1.
\<close>

theorem unlimited_or_nonpositive_quota_is_absent:
  assumes "BOOST_SWEATER_MAX_HARDWARE_CONCURRENCY b \<noteq> 1" and "BOOST_SWEATER_DOCKER_LIMITS b"
    and "fs m ''/sys/fs/cgroup/cpu.max'' = Some fd"
    and "read_result fd = Some content"
  shows "((verify_checks b \<longrightarrow> length content < 128 \<and> close_ok fd)
          \<and> (non_numeric_lead (take 128 content)
               \<or> (\<exists>q p. read_cfs_quota_period b m = Inr (q, p) \<and> (q \<le> 0 \<or> p \<le> 0)))
         \<longrightarrow> get_docker_limit b m = Inr (- 1) \<and> docker_quota_t b m = Inr (- 1))
       \<and> (verify_checks b \<and> 128 \<le> length content
         \<longrightarrow> get_docker_limit b m = Inl (Verify_Failed Read_Below_Buffer_Size))
       \<and> (verify_checks b \<and> length content < 128 \<and> \<not> close_ok fd
         \<longrightarrow> get_docker_limit b m = Inl (Verify_Failed Close_Succeeded))
       \<and> get_hardware_concurrency_max b (- 1) os
           = static_cast (hardware_concurrency_t b) (get_nprocs_conf os)
       \<and> hardware_concurrency_current b (- 1) os
           = static_cast (hardware_concurrency_t b) (get_nprocs os)
       \<and> (representable (hardware_concurrency_t b) (get_nprocs_conf os) \<longrightarrow>
            get_hardware_concurrency_max b (- 1) os = get_nprocs_conf os
            \<and> (get_nprocs_conf os \<noteq> - 1 \<longrightarrow> get_hardware_concurrency_max b (- 1) os \<noteq> - 1))
       \<and> (representable (hardware_concurrency_t b) (get_nprocs os) \<longrightarrow>
            hardware_concurrency_current b (- 1) os = get_nprocs os
            \<and> (get_nprocs os \<noteq> - 1 \<longrightarrow> hardware_concurrency_current b (- 1) os \<noteq> - 1))"
proof -
  have absent: "get_docker_limit b m = Inr (- 1)"
    if ok: "verify_checks b \<longrightarrow> length content < 128 \<and> close_ok fd"
      and lead: "non_numeric_lead (take 128 content)
         \<or> (\<exists>q p. read_cfs_quota_period b m = Inr (q, p) \<and> (q \<le> 0 \<or> p \<le> 0))"
    using lead
  proof
    assume "non_numeric_lead (take 128 content)"
    then have "read_cfs_quota_period b m = Inr (0, 0)"
      using assms(3,4) ok by (intro unified_non_numeric)
    then show ?thesis
      by (simp add: get_docker_limit_def round_quota_absent)
  next
    assume "\<exists>q p. read_cfs_quota_period b m = Inr (q, p) \<and> (q \<le> 0 \<or> p \<le> 0)"
    then obtain q p where "read_cfs_quota_period b m = Inr (q, p)" "q \<le> 0 \<or> p \<le> 0"
      by blast
    then show ?thesis
      by (simp add: get_docker_limit_def round_quota_absent)
  qed
  have full: "get_docker_limit b m = Inl (Verify_Failed Read_Below_Buffer_Size)"
    if "verify_checks b" "128 \<le> length content"
  proof -
    have "fst (sys_read fd ((char_array 128 (value_pair_before m))[0 := NUL])) = 128"
      using that(2) assms(4) by (simp add: sys_read_count)
    then show ?thesis
      using assms(3) that(1) by (simp add: get_docker_limit_def unified_guard_fails)
  qed
  have close_fails: "get_docker_limit b m = Inl (Verify_Failed Close_Succeeded)"
    if "verify_checks b" "length content < 128" "\<not> close_ok fd"
  proof -
    have "output_shorter_than 128 (Some fd)"
      using that(2) assms(4) by (simp add: output_shorter_than_def)
    then show ?thesis
      using assms(3) that(1,3) by (simp add: get_docker_limit_def unified_close_fails)
  qed
  have queries: "get_hardware_concurrency_max b (- 1) os
           = static_cast (hardware_concurrency_t b) (get_nprocs_conf os)"
    "hardware_concurrency_current b (- 1) os
           = static_cast (hardware_concurrency_t b) (get_nprocs os)"
    using assms(1,2)
    by (simp_all add: get_hardware_concurrency_max_def hardware_concurrency_current_def)
  show ?thesis
    using absent full close_fails
    by (simp add: queries docker_quota_t_def static_cast_representable)
qed

theorem unlimited_or_nonpositive_quota_is_absent_witness:
  "get_docker_limit linux_docker_build (cpu_max_only ''max 100000\<newline>'') = Inr (- 1)
   \<and> get_hardware_concurrency_max linux_docker_build (- 1) (linux_os 16 8) = 16
   \<and> hardware_concurrency_current linux_docker_build (- 1) (linux_os 16 8) = 8
   \<and> get_hardware_concurrency_max linux_docker_build (- 1) (linux_os 16 8) \<noteq> - 1
   \<and> read_cfs_quota_period linux_docker_build (cpu_max_only ''-1 100000\<newline>'')
       = Inr (- 1, 100000)
   \<and> get_docker_limit linux_docker_build (cpu_max_only ''-1 100000\<newline>'') = Inr (- 1)
   \<and> get_docker_limit linux_docker_build cpu_max_close_fails
       = Inl (Verify_Failed Close_Succeeded)
   \<and> get_docker_limit linux_docker_build (cpu_max_only (replicate 128 CHR ''m''))
       = Inl (Verify_Failed Read_Below_Buffer_Size)
   \<and> get_docker_limit linux_docker_release_build cpu_max_close_fails = Inr (- 1)"
proof -
  have p: "read_cfs_quota_period linux_docker_build (cpu_max_only ''-1 100000\<newline>'')
             = Inr (- 1, 100000)"
    by code_simp
  have a: "get_docker_limit linux_docker_build (cpu_max_only ''max 100000\<newline>'') = Inr (- 1)
     \<and> get_hardware_concurrency_max linux_docker_build (- 1) (linux_os 16 8) = 16
     \<and> hardware_concurrency_current linux_docker_build (- 1) (linux_os 16 8) = 8
     \<and> get_hardware_concurrency_max linux_docker_build (- 1) (linux_os 16 8) \<noteq> - 1"
    using unlimited_or_nonpositive_quota_is_absent
      [where b = linux_docker_build and m = "cpu_max_only ''max 100000\<newline>''"
         and fd = "\<lparr>read_result = Some ''max 100000\<newline>'', close_ok = True\<rparr>"
         and content = "''max 100000\<newline>''" and os = "linux_os 16 8"]
    by (simp add: linux_docker_build_def cpu_max_only_def linux_os_def isspace_def isdigit_def
          representable_def)
  have b: "get_docker_limit linux_docker_build (cpu_max_only ''-1 100000\<newline>'') = Inr (- 1)"
    using unlimited_or_nonpositive_quota_is_absent
      [where b = linux_docker_build and m = "cpu_max_only ''-1 100000\<newline>''"
         and fd = "\<lparr>read_result = Some ''-1 100000\<newline>'', close_ok = True\<rparr>"
         and content = "''-1 100000\<newline>''"] p
    by (simp add: linux_docker_build_def cpu_max_only_def)
  have c: "get_docker_limit linux_docker_build cpu_max_close_fails
             = Inl (Verify_Failed Close_Succeeded)"
    using unlimited_or_nonpositive_quota_is_absent
      [where b = linux_docker_build and m = cpu_max_close_fails
         and fd = "\<lparr>read_result = Some ''max 100000\<newline>'', close_ok = False\<rparr>"
         and content = "''max 100000\<newline>''"]
    by (simp add: linux_docker_build_def cpu_max_close_fails_def)
  have d: "get_docker_limit linux_docker_build (cpu_max_only (replicate 128 CHR ''m''))
             = Inl (Verify_Failed Read_Below_Buffer_Size)"
    using unlimited_or_nonpositive_quota_is_absent
      [where b = linux_docker_build and m = "cpu_max_only (replicate 128 CHR ''m'')"
         and fd = "\<lparr>read_result = Some (replicate 128 CHR ''m''), close_ok = True\<rparr>"
         and content = "replicate 128 CHR ''m''"]
    by (simp add: linux_docker_build_def cpu_max_only_def)
  have e: "get_docker_limit linux_docker_release_build cpu_max_close_fails = Inr (- 1)"
    using unlimited_or_nonpositive_quota_is_absent
      [where b = linux_docker_release_build and m = cpu_max_close_fails
         and fd = "\<lparr>read_result = Some ''max 100000\<newline>'', close_ok = False\<rparr>"
         and content = "''max 100000\<newline>''"]
    by (simp add: linux_docker_release_build_def linux_docker_build_def cpu_max_close_fails_def
          isspace_def isdigit_def)
  show ?thesis
    using a b c d e p by simp
qed

text \<open>
  C4 as stated fails. Where \<open>BOOST_VERIFY\<close> checks, the content \<open>max 100000\<close> ends the
  process when \<open>close\<close> fails, and so does a content of 128 bytes that starts with a
  marker. And the queries need not return the OS values: with a signed 32-bit
  \<open>hardware_concurrency_t\<close> a count of -1 from the OS is returned as -1, the value of the
  sentinel, and with a 16-bit unsigned one a count of 70000 is returned as 4464.
\<close>

theorem unlimited_marker_counterexample:
  "get_docker_limit linux_docker_build cpu_max_close_fails = Inl (Verify_Failed Close_Succeeded)
   \<and> get_docker_limit linux_docker_build (cpu_max_only (replicate 128 CHR ''m''))
       = Inl (Verify_Failed Read_Below_Buffer_Size)
   \<and> get_docker_limit linux_docker_signed_build (cpu_max_only ''max 100000\<newline>'') = Inr (- 1)
   \<and> get_hardware_concurrency_max linux_docker_signed_build (- 1) (linux_os (- 1) (- 1)) = - 1
   \<and> hardware_concurrency_current linux_docker_signed_build (- 1) (linux_os (- 1) (- 1)) = - 1
   \<and> get_hardware_concurrency_max linux_docker_build (- 1) (linux_os 70000 70000) = 4464"
  by code_simp







section \<open>The lower bound of the two queries\<close>

text \<open>
  Neither query clamps: each converts the value its build selects. The value returned is
  at least 1 when the selected value is usable.
\<close>

lemma max_at_least_one:
  "(BOOST_SWEATER_MAX_HARDWARE_CONCURRENCY b = 1 \<and> usable (hardware_concurrency_t b) 1
      \<longrightarrow> 1 \<le> get_hardware_concurrency_max b docker_quota os)
   \<and> (BOOST_SWEATER_MAX_HARDWARE_CONCURRENCY b \<noteq> 1 \<and> BOOST_SWEATER_DOCKER_LIMITS b
        \<and> docker_quota \<noteq> - 1 \<and> usable (hardware_concurrency_t b) docker_quota
      \<longrightarrow> 1 \<le> get_hardware_concurrency_max b docker_quota os)
   \<and> (BOOST_SWEATER_MAX_HARDWARE_CONCURRENCY b \<noteq> 1 \<and> BOOST_SWEATER_DOCKER_LIMITS b
        \<and> docker_quota = - 1 \<and> usable (hardware_concurrency_t b) (get_nprocs_conf os)
      \<longrightarrow> 1 \<le> get_hardware_concurrency_max b docker_quota os)
   \<and> (BOOST_SWEATER_MAX_HARDWARE_CONCURRENCY b \<noteq> 1 \<and> \<not> BOOST_SWEATER_DOCKER_LIMITS b
        \<and> EMSCRIPTEN_PTHREADS b
        \<and> usable (hardware_concurrency_t b)
             (if emscripten_has_threading_support os \<noteq> 0 then emscripten_num_logical_cores os
              else 1)
      \<longrightarrow> 1 \<le> get_hardware_concurrency_max b docker_quota os)
   \<and> (BOOST_SWEATER_MAX_HARDWARE_CONCURRENCY b \<noteq> 1 \<and> \<not> BOOST_SWEATER_DOCKER_LIMITS b
        \<and> \<not> EMSCRIPTEN_PTHREADS b \<and> LINUX b
        \<and> usable (hardware_concurrency_t b) (get_nprocs_conf os)
      \<longrightarrow> 1 \<le> get_hardware_concurrency_max b docker_quota os)
   \<and> (BOOST_SWEATER_MAX_HARDWARE_CONCURRENCY b \<noteq> 1 \<and> \<not> BOOST_SWEATER_DOCKER_LIMITS b
        \<and> \<not> EMSCRIPTEN_PTHREADS b \<and> \<not> LINUX b
        \<and> usable (hardware_concurrency_t b) (int (std_thread_hardware_concurrency os))
      \<longrightarrow> 1 \<le> get_hardware_concurrency_max b docker_quota os)"
  by (simp add: get_hardware_concurrency_max_def static_cast_usable)

lemma current_at_least_one:
  "(BOOST_SWEATER_MAX_HARDWARE_CONCURRENCY b = 1 \<and> usable (hardware_concurrency_t b) 1
      \<longrightarrow> 1 \<le> hardware_concurrency_current b docker_quota os)
   \<and> (BOOST_SWEATER_MAX_HARDWARE_CONCURRENCY b \<noteq> 1 \<and> BOOST_SWEATER_DOCKER_LIMITS b
        \<and> docker_quota \<noteq> - 1 \<and> usable (hardware_concurrency_t b) docker_quota
      \<longrightarrow> 1 \<le> hardware_concurrency_current b docker_quota os)
   \<and> (BOOST_SWEATER_MAX_HARDWARE_CONCURRENCY b \<noteq> 1 \<and> BOOST_SWEATER_DOCKER_LIMITS b
        \<and> docker_quota = - 1 \<and> usable (hardware_concurrency_t b) (get_nprocs os)
      \<longrightarrow> 1 \<le> hardware_concurrency_current b docker_quota os)
   \<and> (BOOST_SWEATER_MAX_HARDWARE_CONCURRENCY b \<noteq> 1 \<and> \<not> BOOST_SWEATER_DOCKER_LIMITS b
        \<and> EMSCRIPTEN_PTHREADS b
        \<and> usable (hardware_concurrency_t b)
             (if emscripten_has_threading_support os \<noteq> 0 then emscripten_num_logical_cores os
              else 1)
      \<longrightarrow> 1 \<le> hardware_concurrency_current b docker_quota os)
   \<and> (BOOST_SWEATER_MAX_HARDWARE_CONCURRENCY b \<noteq> 1 \<and> \<not> BOOST_SWEATER_DOCKER_LIMITS b
        \<and> \<not> EMSCRIPTEN_PTHREADS b \<and> LINUX b
        \<and> usable (hardware_concurrency_t b) (get_nprocs os)
      \<longrightarrow> 1 \<le> hardware_concurrency_current b docker_quota os)
   \<and> (BOOST_SWEATER_MAX_HARDWARE_CONCURRENCY b \<noteq> 1 \<and> \<not> BOOST_SWEATER_DOCKER_LIMITS b
        \<and> \<not> EMSCRIPTEN_PTHREADS b \<and> \<not> LINUX b
        \<and> usable (hardware_concurrency_t b) (int (std_thread_hardware_concurrency os))
      \<longrightarrow> 1 \<le> hardware_concurrency_current b docker_quota os)"
  by (auto simp: hardware_concurrency_current_def get_hardware_concurrency_max_def
        static_cast_usable usable_def static_cast_representable)

lemma static_cast_zero: "static_cast T 0 = 0"
  by (simp add: static_cast_def)

text \<open>
  Whatever \<open>hardware_concurrency_t\<close> is, a count of 0 from the OS is returned as 0 when
  no quota is present.
\<close>

lemma no_clamp:
  assumes "BOOST_SWEATER_MAX_HARDWARE_CONCURRENCY b \<noteq> 1" and "BOOST_SWEATER_DOCKER_LIMITS b"
  shows "get_nprocs_conf os = 0 \<Longrightarrow> get_hardware_concurrency_max b (- 1) os = 0"
    and "get_nprocs os = 0 \<Longrightarrow> hardware_concurrency_current b (- 1) os = 0"
  using assms
  by (simp_all add: get_hardware_concurrency_max_def hardware_concurrency_current_def
        static_cast_zero)





section \<open>Repeated calls\<close>

text \<open>
  C8, as the code has it. With the cached quota fixed and the OS facilities that
  \<open>get_hardware_concurrency_max\<close> consults reporting the same, two calls of it return the
  same value, whatever else changes. Two calls of \<open>hardware_concurrency_current\<close> can
  return different values when the online count changes in between. Each call of
  \<open>hardware_concurrency_current\<close> returns at least 1 when the value its build selects is at
  least 1 and a value of \<open>hardware_concurrency_t\<close>.
\<close>

theorem max_stable_current_usable:
  "(get_nprocs_conf os' = get_nprocs_conf os
      \<and> emscripten_has_threading_support os' = emscripten_has_threading_support os
      \<and> emscripten_num_logical_cores os' = emscripten_num_logical_cores os
      \<and> std_thread_hardware_concurrency os' = std_thread_hardware_concurrency os
    \<longrightarrow> get_hardware_concurrency_max b docker_quota os'
        = get_hardware_concurrency_max b docker_quota os)
   \<and> (\<exists>b0 q0 os0 os1. get_nprocs_conf os1 = get_nprocs_conf os0
        \<and> hardware_concurrency_current b0 q0 os1 \<noteq> hardware_concurrency_current b0 q0 os0
        \<and> 1 \<le> hardware_concurrency_current b0 q0 os1
        \<and> 1 \<le> hardware_concurrency_current b0 q0 os0)
   \<and> (BOOST_SWEATER_MAX_HARDWARE_CONCURRENCY b = 1 \<and> usable (hardware_concurrency_t b) 1
      \<longrightarrow> 1 \<le> hardware_concurrency_current b docker_quota os)
   \<and> (BOOST_SWEATER_MAX_HARDWARE_CONCURRENCY b \<noteq> 1 \<and> BOOST_SWEATER_DOCKER_LIMITS b
        \<and> docker_quota \<noteq> - 1 \<and> usable (hardware_concurrency_t b) docker_quota
      \<longrightarrow> 1 \<le> hardware_concurrency_current b docker_quota os)
   \<and> (BOOST_SWEATER_MAX_HARDWARE_CONCURRENCY b \<noteq> 1 \<and> BOOST_SWEATER_DOCKER_LIMITS b
        \<and> docker_quota = - 1 \<and> usable (hardware_concurrency_t b) (get_nprocs os)
      \<longrightarrow> 1 \<le> hardware_concurrency_current b docker_quota os)
   \<and> (BOOST_SWEATER_MAX_HARDWARE_CONCURRENCY b \<noteq> 1 \<and> \<not> BOOST_SWEATER_DOCKER_LIMITS b
        \<and> EMSCRIPTEN_PTHREADS b
        \<and> usable (hardware_concurrency_t b)
             (if emscripten_has_threading_support os \<noteq> 0 then emscripten_num_logical_cores os
              else 1)
      \<longrightarrow> 1 \<le> hardware_concurrency_current b docker_quota os)
   \<and> (BOOST_SWEATER_MAX_HARDWARE_CONCURRENCY b \<noteq> 1 \<and> \<not> BOOST_SWEATER_DOCKER_LIMITS b
        \<and> \<not> EMSCRIPTEN_PTHREADS b \<and> LINUX b
        \<and> usable (hardware_concurrency_t b) (get_nprocs os)
      \<longrightarrow> 1 \<le> hardware_concurrency_current b docker_quota os)
   \<and> (BOOST_SWEATER_MAX_HARDWARE_CONCURRENCY b \<noteq> 1 \<and> \<not> BOOST_SWEATER_DOCKER_LIMITS b
        \<and> \<not> EMSCRIPTEN_PTHREADS b \<and> \<not> LINUX b
        \<and> usable (hardware_concurrency_t b) (int (std_thread_hardware_concurrency os))
      \<longrightarrow> 1 \<le> hardware_concurrency_current b docker_quota os)"
proof -
  have stable: "get_nprocs_conf os' = get_nprocs_conf os
      \<and> emscripten_has_threading_support os' = emscripten_has_threading_support os
      \<and> emscripten_num_logical_cores os' = emscripten_num_logical_cores os
      \<and> std_thread_hardware_concurrency os' = std_thread_hardware_concurrency os
    \<longrightarrow> get_hardware_concurrency_max b docker_quota os'
        = get_hardware_concurrency_max b docker_quota os"
    by (simp add: get_hardware_concurrency_max_def)
  have "get_nprocs_conf (linux_os 16 4) = get_nprocs_conf (linux_os 16 8)
        \<and> hardware_concurrency_current linux_docker_build (- 1) (linux_os 16 4)
            \<noteq> hardware_concurrency_current linux_docker_build (- 1) (linux_os 16 8)
        \<and> 1 \<le> hardware_concurrency_current linux_docker_build (- 1) (linux_os 16 4)
        \<and> 1 \<le> hardware_concurrency_current linux_docker_build (- 1) (linux_os 16 8)"
    by code_simp
  then have differ: "\<exists>b0 q0 os0 os1. get_nprocs_conf os1 = get_nprocs_conf os0
        \<and> hardware_concurrency_current b0 q0 os1 \<noteq> hardware_concurrency_current b0 q0 os0
        \<and> 1 \<le> hardware_concurrency_current b0 q0 os1
        \<and> 1 \<le> hardware_concurrency_current b0 q0 os0"
    by blast
  show ?thesis
    using stable differ current_at_least_one [of b docker_quota os] by simp
qed

theorem max_stable_current_usable_witness:
  "get_hardware_concurrency_max linux_docker_build (- 1) (linux_os 16 4)
     = get_hardware_concurrency_max linux_docker_build (- 1) (linux_os 16 8)
   \<and> 1 \<le> hardware_concurrency_current linux_docker_build (- 1) (linux_os 16 8)
   \<and> 1 \<le> hardware_concurrency_current linux_docker_build 2 unknown_concurrency_os"
  using max_stable_current_usable [of "linux_os 16 4" "linux_os 16 8" linux_docker_build "- 1"]
    max_stable_current_usable [of _ unknown_concurrency_os linux_docker_build 2]
  by (simp add: linux_docker_build_def linux_os_def usable_def representable_def)

text \<open>
  C8 as stated fails in its last part: where \<open>std::thread::hardware_concurrency()\<close>
  returns 0, a call of \<open>hardware_concurrency_current\<close> returns 0.
\<close>

theorem current_zero_counterexample:
  "hardware_concurrency_current generic_build (- 1) unknown_concurrency_os = 0"
  by code_simp

end
